theory Spec2Isabelle
  imports Complex_Main
begin

section \<open>Python values\<close>

text \<open>
  The attributes and arguments of \<^verbatim>\<open>GReaT\<close> are dynamically typed. The values they take in
  \<^verbatim>\<open>great.py\<close> are \<^verbatim>\<open>None\<close>, booleans, integers, floats, strings, lists, dictionaries and
  numpy arrays. A finite float is carried by its exact rational value; \<open>PNDArray\<close> is a
  one-dimensional float array, the kind that \<^verbatim>\<open>save\<close> turns into a list. A dictionary is an
  association list in insertion order.
\<close>

datatype pyval =
    PNone
  | PBool bool
  | PInt int
  | PFloat rat
  | PStr string
  | PList "pyval list"
  | PDict "(pyval \<times> pyval) list"
  | PNDArray "rat list"

datatype error =
    ValueError
  | AssertionError
  | TypeError
  | KeyError
  | IndexError
  | FileNotFoundError
  | FileExistsError
  | IsADirectoryError
  | JSONDecodeError
  | UnpicklingError
  | OutOfModel

text \<open>
  Truth value testing, as \<^verbatim>\<open>if x\<close>, \<^verbatim>\<open>x and y\<close> and \<^verbatim>\<open>not x\<close> perform it. numpy refuses to
  give an array of more than one element a truth value and raises \<^verbatim>\<open>ValueError\<close>.
\<close>

fun truthy :: "pyval \<Rightarrow> error + bool" where
  "truthy PNone = Inr False"
| "truthy (PBool b) = Inr b"
| "truthy (PInt i) = Inr (i \<noteq> 0)"
| "truthy (PFloat r) = Inr (r \<noteq> 0)"
| "truthy (PStr s) = Inr (s \<noteq> [])"
| "truthy (PList xs) = Inr (xs \<noteq> [])"
| "truthy (PDict kvs) = Inr (kvs \<noteq> [])"
| "truthy (PNDArray xs) =
     (case xs of [] \<Rightarrow> Inr False | [x] \<Rightarrow> Inr (x \<noteq> 0) | _ \<Rightarrow> Inl ValueError)"

text \<open>\<^verbatim>\<open>isinstance(x, str)\<close>, \<^verbatim>\<open>isinstance(x, dict)\<close>, \<^verbatim>\<open>isinstance(x, list)\<close>.\<close>

fun is_str :: "pyval \<Rightarrow> bool" where
  "is_str (PStr s) = True"
| "is_str v = False"

fun is_dict :: "pyval \<Rightarrow> bool" where
  "is_dict (PDict kvs) = True"
| "is_dict v = False"

fun is_list :: "pyval \<Rightarrow> bool" where
  "is_list (PList xs) = True"
| "is_list v = False"

section \<open>The GReaT instance\<close>

text \<open>
  The attributes \<^verbatim>\<open>__init__\<close> sets, without \<^verbatim>\<open>tokenizer\<close> (a service of the external
  framework, see \<open>env\<close> below). The model is present by its weights only. \<^verbatim>\<open>columns\<close> and
  \<^verbatim>\<open>num_cols\<close> are \<^verbatim>\<open>None\<close> before \<^verbatim>\<open>fit\<close> and lists of column names after it;
  \<^verbatim>\<open>conditional_col\<close> is \<^verbatim>\<open>None\<close> or a column name; \<^verbatim>\<open>conditional_col_dist\<close> is whatever
  \<^verbatim>\<open>_get_column_distribution\<close> returned (a dict, a list or an array), or \<^verbatim>\<open>None\<close>.
\<close>

type_synonym state_dict = "nat list"

record great =
  llm :: string
  model :: state_dict
  experiment_dir :: string
  epochs :: int
  batch_size :: int
  train_hyperparameters :: "(string \<times> pyval) list"
  columns :: "string list option"
  num_cols :: "string list option"
  conditional_col :: pyval
  conditional_col_dist :: pyval

section \<open>Start samplers\<close>

text \<open>
  The three classes of \<^verbatim>\<open>be_great.great_start\<close>, each with the arguments its constructor
  receives after the tokenizer.
\<close>

datatype sampler =
    CategoricalStart pyval pyval
  | ContinuousStart pyval pyval
  | RandomStart "string list option"

text \<open>
  \<^verbatim>\<open>GReaT._get_start_sampler\<close>: the two \<^verbatim>\<open>raise ValueError\<close>, the two assertions, the two
  fallbacks and the choice of the class by the type of the distribution, in the source's
  order. The truth value of \<^verbatim>\<open>start_col\<close> is the first thing evaluated.
\<close>

definition get_start_sampler :: "great \<Rightarrow> pyval \<Rightarrow> pyval \<Rightarrow> error + sampler" where
  "get_start_sampler self start_col start_col_dist =
     (case truthy start_col of
        Inl e \<Rightarrow> Inl e
      | Inr given \<Rightarrow>
          if given \<and> start_col_dist = PNone then Inl ValueError
          else if start_col_dist \<noteq> PNone \<and> \<not> given then Inl ValueError
          else if \<not> (start_col = PNone \<or> is_str start_col) then Inl AssertionError
          else if \<not> (start_col_dist = PNone \<or> is_dict start_col_dist \<or> is_list start_col_dist)
            then Inl AssertionError
          else
            (case truthy start_col_dist of
               Inl e \<Rightarrow> Inl e
             | Inr dist_given \<Rightarrow>
                 let start_col' = (if given then start_col else conditional_col self);
                     start_col_dist' =
                       (if dist_given then start_col_dist else conditional_col_dist self)
                 in (case start_col_dist' of
                       PDict kvs \<Rightarrow> Inr (CategoricalStart start_col' start_col_dist')
                     | PList xs \<Rightarrow> Inr (ContinuousStart start_col' start_col_dist')
                     | _ \<Rightarrow> Inr (RandomStart (columns self)))))"

section \<open>External services\<close>

text \<open>
  A cell of a generated table holds the text of a value or is missing (\<^verbatim>\<open>None\<close>/\<^verbatim>\<open>NaN\<close>).
  A table has its column labels and its rows, each row under its index label.
\<close>

datatype cell = NaN | Val string

type_synonym row = "string \<Rightarrow> cell"

record table =
  cols :: "string list"
  rows :: "(nat \<times> row) list"

text \<open>The input of \<^verbatim>\<open>fit\<close> after \<^verbatim>\<open>_array_to_dataframe\<close>: the columns with the flag
  "the dtype is a numpy number", and the data.\<close>

record dataframe =
  df_columns :: "string list"
  df_number :: "string \<Rightarrow> bool"
  df_data :: "pyval list list"

text \<open>
  What \<^verbatim>\<open>great.py\<close> calls and does not define is a parameter of the model: the tokenizer and
  the language model of the external framework, pandas' numeric parser, and the helpers of
  the package's other modules, \<^verbatim>\<open>GReaTStart.get_start_tokens\<close>, \<^verbatim>\<open>_convert_tokens_to_text\<close>,
  \<^verbatim>\<open>_convert_text_to_tabular_data\<close> and \<^verbatim>\<open>_get_column_distribution\<close>. Sampling is random:
  \<open>get_start_tokens\<close> and \<open>generate\<close> take the number of generations made so far and
  answer for that draw. \<open>to_numeric s\<close> says that \<^verbatim>\<open>pd.to_numeric(s, errors='coerce')\<close> is
  not null. \<open>float_repr\<close> is \<^verbatim>\<open>float.__repr__\<close>, which \<^verbatim>\<open>json\<close> applies to a float used as a
  dictionary key.
\<close>

record env =
  tokenizer :: "string \<Rightarrow> nat list"
  from_pretrained :: "string \<Rightarrow> state_dict"
  train :: "state_dict \<Rightarrow> dataframe \<Rightarrow> state_dict"
  get_start_tokens :: "sampler \<Rightarrow> int \<Rightarrow> nat \<Rightarrow> nat list list"
  generate :: "nat \<Rightarrow> nat list list \<Rightarrow> int \<Rightarrow> rat \<Rightarrow> nat list list"
  convert_tokens_to_text :: "nat list list \<Rightarrow> string list"
  convert_text_to_tabular_data :: "string list \<Rightarrow> table \<Rightarrow> table"
  get_column_distribution :: "dataframe \<Rightarrow> pyval \<Rightarrow> pyval"
  to_numeric :: "string \<Rightarrow> bool"
  float_repr :: "rat \<Rightarrow> string"

section \<open>Sampling\<close>

text \<open>\<^verbatim>\<open>pd.DataFrame(columns=self.columns)\<close>: no rows; no columns either when the attribute is
  \<^verbatim>\<open>None\<close>.\<close>

definition DataFrame :: "string list option \<Rightarrow> table" where
  "DataFrame cs = \<lparr>cols = (case cs of None \<Rightarrow> [] | Some xs \<Rightarrow> xs), rows = []\<rparr>"

text \<open>\<^verbatim>\<open>pd.to_numeric(..., errors='coerce').notnull()\<close> on one cell: a missing value stays
  null, a text is null unless it parses.\<close>

definition notnull_numeric :: "env \<Rightarrow> cell \<Rightarrow> bool" where
  "notnull_numeric ev c = (case c of NaN \<Rightarrow> False | Val s \<Rightarrow> to_numeric ev s)"

text \<open>Line 132: \<^verbatim>\<open>df_gen[i_num_cols]\<close> raises \<^verbatim>\<open>KeyError\<close> for a label that is no column; the
  boolean mask keeps the rows at the positions where it is true.\<close>

definition keep_numeric :: "env \<Rightarrow> string \<Rightarrow> table \<Rightarrow> error + table" where
  "keep_numeric ev c df =
     (if c \<in> set (cols df)
      then Inr (df\<lparr>rows := filter (\<lambda>ir. notnull_numeric ev (snd ir c)) (rows df)\<rparr>)
      else Inl KeyError)"

text \<open>Lines 131-132: the loop over \<^verbatim>\<open>self.num_cols\<close>.\<close>

fun remove_flawed :: "env \<Rightarrow> string list \<Rightarrow> table \<Rightarrow> error + table" where
  "remove_flawed ev [] df = Inr df"
| "remove_flawed ev (c # cs) df =
     (case keep_numeric ev c df of Inl e \<Rightarrow> Inl e | Inr df' \<Rightarrow> remove_flawed ev cs df')"

text \<open>Line 135: \<^verbatim>\<open>df_gen.drop(df_gen[df_gen.isna().any(axis=1)].index)\<close> removes every row
  whose index label is the label of a row with a missing value.\<close>

definition has_na :: "table \<Rightarrow> row \<Rightarrow> bool" where
  "has_na df r = (\<exists>c \<in> set (cols df). r c = NaN)"

definition remove_missing :: "table \<Rightarrow> table" where
  "remove_missing df =
     (let labels = map fst (filter (\<lambda>ir. has_na df (snd ir)) (rows df))
      in df\<lparr>rows := filter (\<lambda>ir. fst ir \<notin> set labels) (rows df)\<rparr>)"

text \<open>
  One pass of the body of the \<^verbatim>\<open>while\<close> loop (lines 119-135) on the pair of \<^verbatim>\<open>df_gen\<close> and
  the number of generations made. \<^verbatim>\<open>for ... in self.num_cols\<close> raises \<^verbatim>\<open>TypeError\<close> when the
  attribute is \<^verbatim>\<open>None\<close>. The progress bar is display only and left out, as is the device.
\<close>

definition sample_step ::
  "env \<Rightarrow> great \<Rightarrow> sampler \<Rightarrow> int \<Rightarrow> int \<Rightarrow> rat \<Rightarrow> table \<times> nat \<Rightarrow> error + table \<times> nat" where
  "sample_step ev self great_start k max_length temperature st =
     (let start_tokens = get_start_tokens ev great_start k (snd st);
          tokens = generate ev (snd st) start_tokens max_length temperature;
          text_data = convert_tokens_to_text ev tokens;
          df_gen = convert_text_to_tabular_data ev text_data (fst st)
      in case num_cols self of
           None \<Rightarrow> Inl TypeError
         | Some ncs \<Rightarrow>
             (case remove_flawed ev ncs df_gen of
                Inl e \<Rightarrow> Inl e
              | Inr df_gen' \<Rightarrow> Inr (remove_missing df_gen', Suc (snd st))))"

text \<open>
  The \<^verbatim>\<open>while n_samples > df_gen.shape[0]\<close> loop. The source has no bound on the number of
  passes; the model counts them against a budget and answers \<open>None\<close> when the budget ends
  before the loop does. The loop never ending is \<open>None\<close> for every budget.
\<close>

fun sample_loop ::
  "nat \<Rightarrow> env \<Rightarrow> great \<Rightarrow> sampler \<Rightarrow> int \<Rightarrow> int \<Rightarrow> rat \<Rightarrow> int \<Rightarrow> table \<times> nat
     \<Rightarrow> (error + table \<times> nat) option" where
  "sample_loop 0 ev self great_start k max_length temperature n_samples st =
     (if n_samples > int (length (rows (fst st))) then None else Some (Inr st))"
| "sample_loop (Suc fuel) ev self great_start k max_length temperature n_samples st =
     (if n_samples > int (length (rows (fst st))) then
        (case sample_step ev self great_start k max_length temperature st of
           Inl e \<Rightarrow> Some (Inl e)
         | Inr st' \<Rightarrow> sample_loop fuel ev self great_start k max_length temperature n_samples st')
      else Some (Inr st))"

text \<open>\<^verbatim>\<open>reset_index(drop=True)\<close> and \<^verbatim>\<open>head(n)\<close>; a negative \<open>n\<close> keeps all rows but the last
  \<open>-n\<close>.\<close>

definition reset_index :: "table \<Rightarrow> table" where
  "reset_index df = df\<lparr>rows := zip [0..<length (rows df)] (map snd (rows df))\<rparr>"

definition head :: "int \<Rightarrow> table \<Rightarrow> table" where
  "head n df =
     df\<lparr>rows := (if 0 \<le> n then take (nat n) (rows df)
                 else take (nat (int (length (rows df)) + n)) (rows df))\<rparr>"

text \<open>\<^verbatim>\<open>GReaT.sample\<close>. The last argument is the number of generations made before the call;
  the result carries the number made after it.\<close>

definition sample ::
  "nat \<Rightarrow> env \<Rightarrow> great \<Rightarrow> int \<Rightarrow> pyval \<Rightarrow> pyval \<Rightarrow> rat \<Rightarrow> int \<Rightarrow> int \<Rightarrow> nat
     \<Rightarrow> (error + table \<times> nat) option" where
  "sample fuel ev self n_samples start_col start_col_dist temperature k max_length calls =
     (case get_start_sampler self start_col start_col_dist of
        Inl e \<Rightarrow> Some (Inl e)
      | Inr great_start \<Rightarrow>
          (case sample_loop fuel ev self great_start k max_length temperature n_samples
                  (DataFrame (columns self), calls) of
             None \<Rightarrow> None
           | Some (Inl e) \<Rightarrow> Some (Inl e)
           | Some (Inr st) \<Rightarrow> Some (Inr (head n_samples (reset_index (fst st)), snd st))))"

text \<open>
  \<^verbatim>\<open>GReaT.great_sample\<close>. The loop of lines 163-169 makes one generation for each prompt, on
  a batch of that one prompt, and appends its only sequence to \<^verbatim>\<open>generated_data\<close>.
\<close>

fun generate_each ::
  "env \<Rightarrow> rat \<Rightarrow> int \<Rightarrow> string list \<Rightarrow> nat list list \<times> nat \<Rightarrow> nat list list \<times> nat" where
  "generate_each ev temperature max_length [] acc = acc"
| "generate_each ev temperature max_length (prompt # prompts) acc =
     (let start_token = tokenizer ev prompt;
          gen = generate ev (snd acc) [start_token] max_length temperature
      in generate_each ev temperature max_length prompts (fst acc @ [concat gen], Suc (snd acc)))"

definition great_sample ::
  "env \<Rightarrow> great \<Rightarrow> string + string list \<Rightarrow> rat \<Rightarrow> int \<Rightarrow> nat \<Rightarrow> table \<times> nat" where
  "great_sample ev self starting_prompts temperature max_length calls =
     (let prompts = (case starting_prompts of Inl s \<Rightarrow> [s] | Inr ps \<Rightarrow> ps);
          gd = generate_each ev temperature max_length prompts ([], calls);
          decoded_data = convert_tokens_to_text ev (fst gd)
      in (convert_text_to_tabular_data ev decoded_data (DataFrame (columns self)), snd gd))"

section \<open>Fitting\<close>

text \<open>\<^verbatim>\<open>GReaT._update_column_information\<close>.\<close>

definition update_column_information :: "great \<Rightarrow> dataframe \<Rightarrow> great" where
  "update_column_information self df =
     self\<lparr>columns := Some (df_columns df),
          num_cols := Some (filter (df_number df) (df_columns df))\<rparr>"

text \<open>\<^verbatim>\<open>df.columns[-1]\<close> raises \<^verbatim>\<open>IndexError\<close> on a frame without columns.\<close>

definition last_column :: "dataframe \<Rightarrow> error + pyval" where
  "last_column df =
     (if df_columns df = [] then Inl IndexError else Inr (PStr (last (df_columns df))))"

text \<open>\<^verbatim>\<open>GReaT._update_conditional_information\<close>: the two assertions, then
  \<^verbatim>\<open>conditional_col if conditional_col else df.columns[-1]\<close>, which tests the truth value of
  the argument.\<close>

definition update_conditional_information ::
  "env \<Rightarrow> great \<Rightarrow> dataframe \<Rightarrow> pyval \<Rightarrow> error + great" where
  "update_conditional_information ev self df conditional_col' =
     (if \<not> (conditional_col' = PNone \<or> is_str conditional_col') then Inl AssertionError
      else if \<not> (conditional_col' = PNone \<or> conditional_col' \<in> set (map PStr (df_columns df)))
        then Inl AssertionError
      else
        (case truthy conditional_col' of
           Inl e \<Rightarrow> Inl e
         | Inr given \<Rightarrow>
             (case (if given then Inr conditional_col' else last_column df) of
                Inl e \<Rightarrow> Inl e
              | Inr c \<Rightarrow>
                  Inr (self\<lparr>conditional_col := c,
                            conditional_col_dist := get_column_distribution ev df c\<rparr>))))"

text \<open>
  \<^verbatim>\<open>GReaT.fit\<close> on the frame that \<^verbatim>\<open>_array_to_dataframe\<close> returned. The result is the error
  raised, if any, and the instance as the call leaves it: an assertion that fails in
  \<^verbatim>\<open>_update_conditional_information\<close> leaves the column information already updated.
  Training is the external trainer's.
\<close>

definition fit :: "env \<Rightarrow> great \<Rightarrow> dataframe \<Rightarrow> pyval \<Rightarrow> error option \<times> great" where
  "fit ev self df conditional_col' =
     (let self1 = update_column_information self df
      in case update_conditional_information ev self1 df conditional_col' of
           Inl e \<Rightarrow> (Some e, self1)
         | Inr self2 \<Rightarrow> (None, self2\<lparr>model := train ev (model self2) df\<rparr>))"

section \<open>JSON\<close>

text \<open>
  What \<^verbatim>\<open>json.dump\<close> writes and \<^verbatim>\<open>json.load\<close> reads back, as the document's syntax tree.
  The keys of an object are strings: \<^verbatim>\<open>json.dump\<close> turns a key that is a float, a boolean,
  \<^verbatim>\<open>None\<close> or an integer into its text, and raises \<^verbatim>\<open>TypeError\<close> for any other key and for
  a value it cannot serialise (here: an array).
\<close>

datatype json =
    JNull
  | JBool bool
  | JInt int
  | JFloat rat
  | JStr string
  | JList "json list"
  | JObj "(string \<times> json) list"

fun str_nat :: "nat \<Rightarrow> string" where
  "str_nat n =
     (if n < 10 then [''0123456789'' ! n]
      else str_nat (n div 10) @ [''0123456789'' ! (n mod 10)])"

declare str_nat.simps [simp del]

definition str_int :: "int \<Rightarrow> string" where
  "str_int i = (if i < 0 then CHR ''-'' # str_nat (nat (- i)) else str_nat (nat i))"

fun key_str :: "(rat \<Rightarrow> string) \<Rightarrow> pyval \<Rightarrow> error + string" where
  "key_str fr (PStr s) = Inr s"
| "key_str fr (PFloat r) = Inr (fr r)"
| "key_str fr (PBool b) = Inr (if b then ''true'' else ''false'')"
| "key_str fr PNone = Inr ''null''"
| "key_str fr (PInt i) = Inr (str_int i)"
| "key_str fr v = Inl TypeError"

fun dumps :: "(rat \<Rightarrow> string) \<Rightarrow> pyval \<Rightarrow> error + json"
  and dumps_list :: "(rat \<Rightarrow> string) \<Rightarrow> pyval list \<Rightarrow> error + json list"
  and dumps_items :: "(rat \<Rightarrow> string) \<Rightarrow> (pyval \<times> pyval) list \<Rightarrow> error + (string \<times> json) list"
where
  "dumps fr PNone = Inr JNull"
| "dumps fr (PBool b) = Inr (JBool b)"
| "dumps fr (PInt i) = Inr (JInt i)"
| "dumps fr (PFloat r) = Inr (JFloat r)"
| "dumps fr (PStr s) = Inr (JStr s)"
| "dumps fr (PList xs) =
     (case dumps_list fr xs of Inl e \<Rightarrow> Inl e | Inr js \<Rightarrow> Inr (JList js))"
| "dumps fr (PDict kvs) =
     (case dumps_items fr kvs of Inl e \<Rightarrow> Inl e | Inr js \<Rightarrow> Inr (JObj js))"
| "dumps fr (PNDArray xs) = Inl TypeError"
| "dumps_list fr [] = Inr []"
| "dumps_list fr (x # xs) =
     (case dumps fr x of
        Inl e \<Rightarrow> Inl e
      | Inr j \<Rightarrow> (case dumps_list fr xs of Inl e \<Rightarrow> Inl e | Inr js \<Rightarrow> Inr (j # js)))"
| "dumps_items fr [] = Inr []"
| "dumps_items fr (kv # kvs) =
     (case key_str fr (fst kv) of
        Inl e \<Rightarrow> Inl e
      | Inr s \<Rightarrow>
          (case dumps fr (snd kv) of
             Inl e \<Rightarrow> Inl e
           | Inr j \<Rightarrow>
               (case dumps_items fr kvs of Inl e \<Rightarrow> Inl e | Inr js \<Rightarrow> Inr ((s, j) # js))))"

text \<open>\<^verbatim>\<open>d[k] = v\<close> on a dictionary: a key already present keeps its place and takes the new
  value.\<close>

fun dict_set :: "(pyval \<times> pyval) list \<Rightarrow> pyval \<Rightarrow> pyval \<Rightarrow> (pyval \<times> pyval) list" where
  "dict_set [] k v = [(k, v)]"
| "dict_set (kv # d) k v = (if fst kv = k then (k, v) # d else kv # dict_set d k v)"

text \<open>\<^verbatim>\<open>json.load\<close>: an object becomes a dictionary, filled member by member.\<close>

fun loads :: "json \<Rightarrow> pyval"
  and loads_list :: "json list \<Rightarrow> pyval list"
  and loads_items :: "(string \<times> json) list \<Rightarrow> (pyval \<times> pyval) list \<Rightarrow> (pyval \<times> pyval) list"
where
  "loads JNull = PNone"
| "loads (JBool b) = PBool b"
| "loads (JInt i) = PInt i"
| "loads (JFloat r) = PFloat r"
| "loads (JStr s) = PStr s"
| "loads (JList js) = PList (loads_list js)"
| "loads (JObj ms) = PDict (loads_items ms [])"
| "loads_list [] = []"
| "loads_list (j # js) = loads j # loads_list js"
| "loads_items [] d = d"
| "loads_items (m # ms) d = loads_items ms (dict_set d (PStr (fst m)) (loads (snd m)))"

section \<open>Persistence\<close>

text \<open>
  The file system as \<^verbatim>\<open>save\<close> and \<^verbatim>\<open>load_from_dir\<close> see it: the directories, the files
  with their content, and a log of what was done. A file holds a JSON document, a state
  dict written by \<^verbatim>\<open>torch.save\<close>, or \<open>Truncated\<close>: opened for writing and not written to
  the end. The parent directory of a path is taken to exist.
\<close>

datatype content = Config json | Weights state_dict | Truncated

datatype event = Warn string | Mkdir string | Write string | Read string

record world =
  dirs :: "string set"
  files :: "string \<rightharpoonup> content"
  events :: "event list"

definition mkdir :: "string \<Rightarrow> world \<Rightarrow> error + world" where
  "mkdir path w =
     (if path \<in> dirs w \<or> path \<in> dom (files w) then Inl FileExistsError
      else Inr (w\<lparr>dirs := insert path (dirs w), events := events w @ [Mkdir path]\<rparr>))"

definition open_w :: "string \<Rightarrow> world \<Rightarrow> error + world" where
  "open_w name w =
     (if name \<in> dirs w then Inl IsADirectoryError
      else Inr (w\<lparr>files := (files w)(name \<mapsto> Truncated), events := events w @ [Write name]\<rparr>))"

definition open_r :: "string \<Rightarrow> world \<Rightarrow> error + content \<times> world" where
  "open_r name w =
     (if name \<in> dirs w then Inl IsADirectoryError
      else case files w name of
             None \<Rightarrow> Inl FileNotFoundError
           | Some c \<Rightarrow> Inr (c, w\<lparr>events := events w @ [Read name]\<rparr>))"

text \<open>A list of names, or \<^verbatim>\<open>None\<close>, as a Python value.\<close>

fun py_opt_list :: "string list option \<Rightarrow> pyval" where
  "py_opt_list None = PNone"
| "py_opt_list (Some xs) = PList (map PStr xs)"

text \<open>\<^verbatim>\<open>list(a)\<close> for an array \<open>a\<close>, the conversion of lines 194-195.\<close>

fun ndarray_to_list :: "pyval \<Rightarrow> pyval" where
  "ndarray_to_list (PNDArray xs) = PList (map PFloat xs)"
| "ndarray_to_list v = v"

text \<open>Lines 189-195: \<^verbatim>\<open>self.__dict__\<close> in the order \<^verbatim>\<open>__init__\<close> filled it, without
  \<^verbatim>\<open>tokenizer\<close> and \<^verbatim>\<open>model\<close>, the distribution converted when it is an array.\<close>

definition attributes_of :: "great \<Rightarrow> (pyval \<times> pyval) list" where
  "attributes_of self =
     [(PStr ''llm'', PStr (llm self)),
      (PStr ''experiment_dir'', PStr (experiment_dir self)),
      (PStr ''epochs'', PInt (epochs self)),
      (PStr ''batch_size'', PInt (batch_size self)),
      (PStr ''train_hyperparameters'',
         PDict (map (\<lambda>kv. (PStr (fst kv), snd kv)) (train_hyperparameters self))),
      (PStr ''columns'', py_opt_list (columns self)),
      (PStr ''num_cols'', py_opt_list (num_cols self)),
      (PStr ''conditional_col'', conditional_col self),
      (PStr ''conditional_col_dist'', ndarray_to_list (conditional_col_dist self))]"

text \<open>
  \<^verbatim>\<open>GReaT.save\<close>. The result is the error raised, if any, and the file system as the call
  leaves it. \<^verbatim>\<open>json.dump\<close> failing leaves the configuration file truncated.
\<close>

definition save :: "env \<Rightarrow> great \<Rightarrow> string \<Rightarrow> world \<Rightarrow> error option \<times> world" where
  "save ev self path w =
     (case (if path \<in> dirs w then Inr (w\<lparr>events := events w @ [Warn path]\<rparr>)
            else mkdir path w) of
        Inl e \<Rightarrow> (Some e, w)
      | Inr w1 \<Rightarrow>
          (case open_w (path @ ''/config.json'') w1 of
             Inl e \<Rightarrow> (Some e, w1)
           | Inr w2 \<Rightarrow>
               (case dumps (float_repr ev) (PDict (attributes_of self)) of
                  Inl e \<Rightarrow> (Some e, w2)
                | Inr j \<Rightarrow>
                    (let w3 = w2\<lparr>files := (files w2)(path @ ''/config.json'' \<mapsto> Config j)\<rparr>
                     in case open_w (path @ ''/model.pt'') w3 of
                          Inl e \<Rightarrow> (Some e, w3)
                        | Inr w4 \<Rightarrow>
                            (None, w4\<lparr>files :=
                               (files w4)(path @ ''/model.pt'' \<mapsto> Weights (model self))\<rparr>)))))"

text \<open>\<^verbatim>\<open>GReaT.__init__\<close>.\<close>

definition init ::
  "env \<Rightarrow> string \<Rightarrow> string \<Rightarrow> int \<Rightarrow> int \<Rightarrow> (string \<times> pyval) list \<Rightarrow> great" where
  "init ev llm' experiment_dir' epochs' batch_size' train_kwargs =
     \<lparr>llm = llm', model = from_pretrained ev llm', experiment_dir = experiment_dir',
      epochs = epochs', batch_size = batch_size', train_hyperparameters = train_kwargs,
      columns = None, num_cols = None, conditional_col = PNone, conditional_col_dist = PNone\<rparr>"

text \<open>
  Reading a loaded value into an attribute of the record. The record gives \<^verbatim>\<open>llm\<close>,
  \<^verbatim>\<open>experiment_dir\<close>, \<^verbatim>\<open>epochs\<close>, \<^verbatim>\<open>batch_size\<close>, \<^verbatim>\<open>train_hyperparameters\<close>, \<^verbatim>\<open>columns\<close> and
  \<^verbatim>\<open>num_cols\<close> the types \<^verbatim>\<open>great.py\<close> gives them; a configuration file holding a value of
  another shape for one of them was not written by \<^verbatim>\<open>save\<close>, and the record cannot hold
  what \<^verbatim>\<open>setattr\<close> would store: the answer is \<open>OutOfModel\<close>.
\<close>

fun as_str_list :: "pyval list \<Rightarrow> string list option" where
  "as_str_list [] = Some []"
| "as_str_list (PStr s # vs) = (case as_str_list vs of None \<Rightarrow> None | Some ss \<Rightarrow> Some (s # ss))"
| "as_str_list (v # vs) = None"

fun as_opt_list :: "pyval \<Rightarrow> string list option option" where
  "as_opt_list PNone = Some None"
| "as_opt_list (PList vs) = (case as_str_list vs of None \<Rightarrow> None | Some ss \<Rightarrow> Some (Some ss))"
| "as_opt_list v = None"

fun as_kwargs :: "(pyval \<times> pyval) list \<Rightarrow> (string \<times> pyval) list option" where
  "as_kwargs [] = Some []"
| "as_kwargs ((PStr k, v) # kvs) =
     (case as_kwargs kvs of None \<Rightarrow> None | Some r \<Rightarrow> Some ((k, v) # r))"
| "as_kwargs (kv # kvs) = None"

text \<open>\<^verbatim>\<open>setattr(great, k, v)\<close>. An attribute of another name is one no method reads.\<close>

definition setattr :: "great \<Rightarrow> pyval \<Rightarrow> pyval \<Rightarrow> error + great" where
  "setattr g k v =
     (if k = PStr ''llm'' then
        (case v of PStr s \<Rightarrow> Inr (g\<lparr>llm := s\<rparr>) | _ \<Rightarrow> Inl OutOfModel)
      else if k = PStr ''experiment_dir'' then
        (case v of PStr s \<Rightarrow> Inr (g\<lparr>experiment_dir := s\<rparr>) | _ \<Rightarrow> Inl OutOfModel)
      else if k = PStr ''epochs'' then
        (case v of PInt i \<Rightarrow> Inr (g\<lparr>epochs := i\<rparr>) | _ \<Rightarrow> Inl OutOfModel)
      else if k = PStr ''batch_size'' then
        (case v of PInt i \<Rightarrow> Inr (g\<lparr>batch_size := i\<rparr>) | _ \<Rightarrow> Inl OutOfModel)
      else if k = PStr ''train_hyperparameters'' then
        (case v of
           PDict kvs \<Rightarrow>
             (case as_kwargs kvs of
                None \<Rightarrow> Inl OutOfModel
              | Some r \<Rightarrow> Inr (g\<lparr>train_hyperparameters := r\<rparr>))
         | _ \<Rightarrow> Inl OutOfModel)
      else if k = PStr ''columns'' then
        (case as_opt_list v of None \<Rightarrow> Inl OutOfModel | Some cs \<Rightarrow> Inr (g\<lparr>columns := cs\<rparr>))
      else if k = PStr ''num_cols'' then
        (case as_opt_list v of None \<Rightarrow> Inl OutOfModel | Some cs \<Rightarrow> Inr (g\<lparr>num_cols := cs\<rparr>))
      else if k = PStr ''conditional_col'' then Inr (g\<lparr>conditional_col := v\<rparr>)
      else if k = PStr ''conditional_col_dist'' then Inr (g\<lparr>conditional_col_dist := v\<rparr>)
      else Inr g)"

text \<open>Lines 223-224: the loop over \<^verbatim>\<open>attributes.items()\<close>.\<close>

fun setattrs :: "great \<Rightarrow> (pyval \<times> pyval) list \<Rightarrow> error + great" where
  "setattrs g [] = Inr g"
| "setattrs g (kv # kvs) =
     (case setattr g (fst kv) (snd kv) of Inl e \<Rightarrow> Inl e | Inr g' \<Rightarrow> setattrs g' kvs)"

text \<open>
  \<^verbatim>\<open>GReaT.load_from_dir\<close>. The assertion comes first; then the configuration is read and
  decoded, \<^verbatim>\<open>attributes["llm"]\<close> looked up (\<^verbatim>\<open>TypeError\<close> when the document is no object,
  \<^verbatim>\<open>KeyError\<close> when the key is absent), the instance built with the defaults of
  \<^verbatim>\<open>__init__\<close>, every attribute set, and the weights read.
\<close>

definition load_from_dir :: "env \<Rightarrow> string \<Rightarrow> world \<Rightarrow> (error + great) \<times> world" where
  "load_from_dir ev path w =
     (if path \<notin> dirs w then (Inl AssertionError, w)
      else
        (case open_r (path @ ''/config.json'') w of
           Inl e \<Rightarrow> (Inl e, w)
         | Inr cw \<Rightarrow>
             (case fst cw of
                Config j \<Rightarrow>
                  (case loads j of
                     PDict attributes \<Rightarrow>
                       (case map_of attributes (PStr ''llm'') of
                          None \<Rightarrow> (Inl KeyError, snd cw)
                        | Some (PStr l) \<Rightarrow>
                            (case setattrs (init ev l ''trainer_great'' 100 8 []) attributes of
                               Inl e \<Rightarrow> (Inl e, snd cw)
                             | Inr g \<Rightarrow>
                                 (case open_r (path @ ''/model.pt'') (snd cw) of
                                    Inl e \<Rightarrow> (Inl e, snd cw)
                                  | Inr cw' \<Rightarrow>
                                      (case fst cw' of
                                         Weights sd \<Rightarrow> (Inr (g\<lparr>model := sd\<rparr>), snd cw')
                                       | _ \<Rightarrow> (Inl UnpicklingError, snd cw'))))
                        | Some _ \<Rightarrow> (Inl OutOfModel, snd cw))
                   | _ \<Rightarrow> (Inl TypeError, snd cw))
              | _ \<Rightarrow> (Inl JSONDecodeError, snd cw))))"

section \<open>Validity of a generated row\<close>

text \<open>
  A row is valid for an instance when each field of a numeric column parses as a number
  and no field of the column set is missing.
\<close>

definition the_list :: "string list option \<Rightarrow> string list" where
  "the_list cs = (case cs of None \<Rightarrow> [] | Some xs \<Rightarrow> xs)"

definition valid_row :: "env \<Rightarrow> great \<Rightarrow> row \<Rightarrow> bool" where
  "valid_row ev self r =
     ((\<forall>c \<in> set (the_list (num_cols self)). notnull_numeric ev (r c)) \<and>
      (\<forall>c \<in> set (the_list (columns self)). r c \<noteq> NaN))"

text \<open>The text of the batch that the pass after \<open>i\<close> generations decodes.\<close>

definition batch_text :: "env \<Rightarrow> sampler \<Rightarrow> int \<Rightarrow> int \<Rightarrow> rat \<Rightarrow> nat \<Rightarrow> string list" where
  "batch_text ev great_start k max_length temperature i =
     convert_tokens_to_text ev
       (generate ev i (get_start_tokens ev great_start k i) max_length temperature)"

text \<open>The body of the loop run \<open>i\<close> times, whatever the quota.\<close>

fun passes ::
  "nat \<Rightarrow> env \<Rightarrow> great \<Rightarrow> sampler \<Rightarrow> int \<Rightarrow> int \<Rightarrow> rat \<Rightarrow> table \<times> nat \<Rightarrow> error + table \<times> nat" where
  "passes 0 ev self great_start k max_length temperature st = Inr st"
| "passes (Suc i) ev self great_start k max_length temperature st =
     (case sample_step ev self great_start k max_length temperature st of
        Inl e \<Rightarrow> Inl e
      | Inr st' \<Rightarrow> passes i ev self great_start k max_length temperature st')"

text \<open>
  The values that \<^verbatim>\<open>json\<close> gives back as they were: no array, and dictionaries whose keys
  are strings, each once.
\<close>

fun json_faithful :: "pyval \<Rightarrow> bool"
  and json_faithful_list :: "pyval list \<Rightarrow> bool"
  and json_faithful_items :: "(pyval \<times> pyval) list \<Rightarrow> bool"
where
  "json_faithful PNone = True"
| "json_faithful (PBool b) = True"
| "json_faithful (PInt i) = True"
| "json_faithful (PFloat r) = True"
| "json_faithful (PStr s) = True"
| "json_faithful (PList xs) = json_faithful_list xs"
| "json_faithful (PDict kvs) = (distinct (map fst kvs) \<and> json_faithful_items kvs)"
| "json_faithful (PNDArray xs) = False"
| "json_faithful_list [] = True"
| "json_faithful_list (x # xs) = (json_faithful x \<and> json_faithful_list xs)"
| "json_faithful_items [] = True"
| "json_faithful_items (kv # kvs) =
     (is_str (fst kv) \<and> json_faithful (snd kv) \<and> json_faithful_items kvs)"

section \<open>Stubs for the external services\<close>

text \<open>
  A generator that emits the same text for every sequence, with a decoder that knows the
  row \<^verbatim>\<open>age is 30, sex is M, income is 50000\<close> and decodes anything else to a row of missing
  values. New rows take the next index labels.
\<close>

definition stub_decode :: "string \<Rightarrow> row" where
  "stub_decode t =
     (if t = ''age is 30, sex is M, income is 50000''
      then (\<lambda>c. if c = ''age'' then Val ''30''
                else if c = ''sex'' then Val ''M''
                else if c = ''income'' then Val ''50000''
                else NaN)
      else (\<lambda>c. NaN))"

definition stub_env :: "string \<Rightarrow> env" where
  "stub_env t =
     \<lparr>tokenizer = (\<lambda>s. [length s]),
      from_pretrained = (\<lambda>l. []),
      train = (\<lambda>sd df. sd),
      get_start_tokens = (\<lambda>gs k i. replicate (nat k) []),
      generate = (\<lambda>i ids ml temp. ids),
      convert_tokens_to_text = map (\<lambda>ts. t),
      convert_text_to_tabular_data =
        (\<lambda>txt df. df\<lparr>rows := rows df @
           zip [length (rows df)..<length (rows df) + length txt] (map stub_decode txt)\<rparr>),
      get_column_distribution = (\<lambda>df c. PDict [(PStr ''M'', PFloat (1 / 2)), (PStr ''F'', PFloat (1 / 2))]),
      to_numeric = (\<lambda>s. s = ''30'' \<or> s = ''50000''),
      float_repr = (\<lambda>r. ''0.5'')\<rparr>"

definition stub_great :: great where
  "stub_great =
     \<lparr>llm = ''distilgpt2'', model = [], experiment_dir = ''trainer_great'', epochs = 100,
      batch_size = 8, train_hyperparameters = [],
      columns = Some [''age'', ''sex'', ''income''], num_cols = Some [''age'', ''income''],
      conditional_col = PStr ''sex'',
      conditional_col_dist = PDict [(PStr ''M'', PFloat (1 / 2)), (PStr ''F'', PFloat (1 / 2))]\<rparr>"

definition empty_world :: world where
  "empty_world = \<lparr>dirs = {}, files = Map.empty, events = []\<rparr>"

text \<open>The fitted stub instance with the categories of its conditional column coded as the
  integers 0 and 1, as \<^verbatim>\<open>value_counts\<close> of an integer column gives them.\<close>

definition stub_great_codes :: great where
  "stub_great_codes =
     stub_great\<lparr>conditional_col_dist := PDict [(PInt 0, PFloat (1 / 2)), (PInt 1, PFloat (1 / 2))]\<rparr>"

text \<open>A file system where the directory \<^verbatim>\<open>m\<close> exists and holds an older configuration.\<close>

definition stub_world :: world where
  "stub_world =
     \<lparr>dirs = {''m''}, files = [''m/config.json'' \<mapsto> Config JNull], events = []\<rparr>"

text \<open>A frame of two columns, the first of which has the empty string as its name.\<close>

definition stub_frame :: dataframe where
  "stub_frame = \<lparr>df_columns = ['''', ''a''], df_number = (\<lambda>c. False), df_data = []\<rparr>"

section \<open>Construction of the start sampler\<close>

text \<open>
  C2. A start column name given with the distribution left at \<^verbatim>\<open>None\<close> raises
  \<^verbatim>\<open>ValueError\<close>, and so does a distribution given with the start column left at its
  default (the empty string of \<^verbatim>\<open>sample\<close>, or \<^verbatim>\<open>None\<close>).
\<close>

theorem start_sampler_exactly_one_raises:
  "(s \<noteq> [] \<longrightarrow> get_start_sampler self (PStr s) PNone = Inl ValueError) \<and>
   (d \<noteq> PNone \<longrightarrow> get_start_sampler self (PStr []) d = Inl ValueError) \<and>
   (d \<noteq> PNone \<longrightarrow> get_start_sampler self PNone d = Inl ValueError)"
  by (simp add: get_start_sampler_def)

theorem start_sampler_exactly_one_raises_witness:
  "''age'' \<noteq> [] \<and> PList [PFloat 1] \<noteq> PNone \<and>
   get_start_sampler stub_great (PStr ''age'') PNone = Inl ValueError \<and>
   get_start_sampler stub_great (PStr []) (PList [PFloat 1]) = Inl ValueError \<and>
   get_start_sampler stub_great PNone (PList [PFloat 1]) = Inl ValueError"
  using start_sampler_exactly_one_raises [of "''age''" stub_great "PList [PFloat 1]"]
  by simp

text \<open>
  C5. With the start column and the start distribution both at their defaults, the sampler
  is built from the fitted conditional column and distribution: \<open>CategoricalStart\<close> for a
  dictionary, \<open>ContinuousStart\<close> for a list. With no fitted distribution (\<^verbatim>\<open>None\<close>, as
  \<^verbatim>\<open>__init__\<close> leaves it), it is \<open>RandomStart\<close> over the instance's columns, which are
  \<^verbatim>\<open>None\<close> on an instance that was never fitted.
\<close>

theorem start_sampler_fallback:
  "(conditional_col_dist self = PDict kvs \<longrightarrow>
      get_start_sampler self (PStr []) PNone =
        Inr (CategoricalStart (conditional_col self) (PDict kvs))) \<and>
   (conditional_col_dist self = PList xs \<longrightarrow>
      get_start_sampler self (PStr []) PNone =
        Inr (ContinuousStart (conditional_col self) (PList xs))) \<and>
   (conditional_col_dist self = PNone \<longrightarrow>
      get_start_sampler self (PStr []) PNone = Inr (RandomStart (columns self))) \<and>
   get_start_sampler (init ev l e n b kw) (PStr []) PNone =
     Inr (RandomStart (columns (init ev l e n b kw))) \<and>
   columns (init ev l e n b kw) = None"
  by (simp add: get_start_sampler_def init_def)

theorem start_sampler_fallback_witness:
  "conditional_col_dist stub_great = PDict [(PStr ''M'', PFloat (1 / 2)), (PStr ''F'', PFloat (1 / 2))] \<and>
   get_start_sampler stub_great (PStr []) PNone =
     Inr (CategoricalStart (PStr ''sex'')
            (PDict [(PStr ''M'', PFloat (1 / 2)), (PStr ''F'', PFloat (1 / 2))])) \<and>
   conditional_col_dist (stub_great\<lparr>conditional_col_dist := PList [PFloat 1]\<rparr>) = PList [PFloat 1] \<and>
   get_start_sampler (stub_great\<lparr>conditional_col_dist := PList [PFloat 1]\<rparr>) (PStr []) PNone =
     Inr (ContinuousStart (PStr ''sex'') (PList [PFloat 1])) \<and>
   conditional_col_dist (stub_great\<lparr>conditional_col_dist := PNone\<rparr>) = PNone \<and>
   get_start_sampler (stub_great\<lparr>conditional_col_dist := PNone\<rparr>) (PStr []) PNone =
     Inr (RandomStart (Some [''age'', ''sex'', ''income'']))"
  using
    start_sampler_fallback [of stub_great "[(PStr ''M'', PFloat (1 / 2)), (PStr ''F'', PFloat (1 / 2))]"]
    start_sampler_fallback [of "stub_great\<lparr>conditional_col_dist := PList [PFloat 1]\<rparr>" _ "[PFloat 1]"]
    start_sampler_fallback [of "stub_great\<lparr>conditional_col_dist := PNone\<rparr>"]
  by (simp add: stub_great_def)

text \<open>
  C9. A non-empty start column given with an empty dictionary or an empty list raises
  nothing; the empty distribution is replaced by the fitted one, whose type alone chooses
  the sampler, while the start column stays the caller's.
\<close>

theorem start_sampler_empty_dist_discarded:
  "s \<noteq> [] \<Longrightarrow> d = PDict [] \<or> d = PList [] \<Longrightarrow>
   get_start_sampler self (PStr s) d =
     Inr (case conditional_col_dist self of
            PDict kvs \<Rightarrow> CategoricalStart (PStr s) (conditional_col_dist self)
          | PList xs \<Rightarrow> ContinuousStart (PStr s) (conditional_col_dist self)
          | _ \<Rightarrow> RandomStart (columns self))"
  by (auto simp add: get_start_sampler_def split: pyval.splits)

theorem start_sampler_empty_dist_discarded_witness:
  "''age'' \<noteq> [] \<and>
   get_start_sampler (stub_great\<lparr>conditional_col_dist := PList [PFloat 1]\<rparr>) (PStr ''age'') (PDict []) =
     Inr (ContinuousStart (PStr ''age'') (PList [PFloat 1]))"
  using start_sampler_empty_dist_discarded
    [of "''age''" "PDict []" "stub_great\<lparr>conditional_col_dist := PList [PFloat 1]\<rparr>"]
  by simp

section \<open>Sampling without a quota to fill\<close>

lemma get_start_sampler_defaults:
  "\<exists>gs. get_start_sampler self (PStr []) PNone = Inr gs"
  by (cases "conditional_col_dist self") (simp_all add: get_start_sampler_def)

lemma sample_loop_quota_met:
  "n \<le> int (length (rows (fst st))) \<Longrightarrow>
   sample_loop fuel ev self gs k ml temp n st = Some (Inr st)"
  by (cases fuel) simp_all

lemma head_reset_empty: "n \<le> 0 \<Longrightarrow> head n (reset_index (DataFrame cs)) = DataFrame cs"
  by (simp add: head_def reset_index_def DataFrame_def)

lemma sample_no_quota:
  assumes n: "n \<le> 0"
  shows "sample fuel ev self n (PStr []) PNone temperature k max_length calls =
     Some (Inr (DataFrame (columns self), calls))"
proof -
  obtain gs where gs: "get_start_sampler self (PStr []) PNone = Inr gs"
    using get_start_sampler_defaults by blast
  have "n \<le> int (length (rows (fst (DataFrame (columns self), calls))))"
    using n by simp
  then have loop:
    "sample_loop fuel ev self gs k max_length temperature n (DataFrame (columns self), calls)
       = Some (Inr (DataFrame (columns self), calls))"
    by (rule sample_loop_quota_met)
  show ?thesis
    using n gs loop head_reset_empty [of n "columns self"]
    by (simp add: sample_def)
qed

text \<open>
  C10. For \<open>n_samples \<le> 0\<close>, \<^verbatim>\<open>sample(n_samples)\<close> returns, whatever the budget of passes
  (also none), the table \<^verbatim>\<open>pd.DataFrame(columns=self.columns)\<close>: no rows, the columns of the
  instance. The number of generations made is unchanged.
\<close>

theorem sample_nonpositive:
  "n \<le> 0 \<Longrightarrow>
   sample fuel ev self n (PStr []) PNone temperature k max_length calls =
     Some (Inr (DataFrame (columns self), calls)) \<and>
   rows (DataFrame (columns self)) = [] \<and>
   cols (DataFrame (columns self)) = the_list (columns self)"
  by (simp add: sample_no_quota) (simp add: DataFrame_def the_list_def)

theorem sample_nonpositive_witness:
  "(-3::int) \<le> 0 \<and>
   sample 0 (stub_env ''garbage'') stub_great (-3) (PStr []) PNone (7 / 10) 100 100 0 =
     Some (Inr (DataFrame (Some [''age'', ''sex'', ''income'']), 0))"
  using sample_nonpositive [of "-3" 0 "stub_env ''garbage''" stub_great "7 / 10" 100 100 0]
  by (simp add: stub_great_def)

section \<open>Sampling from given prompts\<close>

lemma upt_Suc_shift: "[0..<Suc n] = 0 # map Suc [0..<n]"
  by (simp only: map_Suc_upt upt_conv_Cons [OF zero_less_Suc])

lemma generate_each_closed:
  "generate_each ev temperature max_length prompts acc =
     (fst acc @
        map (\<lambda>i. concat (generate ev (snd acc + i) [tokenizer ev (prompts ! i)]
                            max_length temperature))
          [0..<length prompts],
      snd acc + length prompts)"
proof (induction prompts arbitrary: acc)
  case Nil
  then show ?case by simp
next
  case (Cons p ps)
  show ?case
    by (simp add: Cons.IH upt_Suc_shift o_def Let_def del: upt_Suc)
qed

text \<open>
  C6. \<^verbatim>\<open>great_sample\<close> makes one generation for each prompt, the \<open>i\<close>-th on the batch of the
  \<open>i\<close>-th prompt alone, and returns the table that \<^verbatim>\<open>_convert_text_to_tabular_data\<close> builds
  from all the decoded texts on the empty frame: no loop on a quota, no second generation,
  no filter. A single string is the list of that one prompt. With the stub that emits
  \<^verbatim>\<open>garbage\<close>, the one row decoded, all of whose fields are missing, is returned.
\<close>

theorem great_sample_one_generation_each:
  "great_sample ev self (Inr prompts) temperature max_length calls =
     (convert_text_to_tabular_data ev
        (convert_tokens_to_text ev
           (map (\<lambda>i. concat (generate ev (calls + i) [tokenizer ev (prompts ! i)]
                               max_length temperature))
              [0..<length prompts]))
        (DataFrame (columns self)),
      calls + length prompts) \<and>
   great_sample ev self (Inl prompt) temperature max_length calls =
     great_sample ev self (Inr [prompt]) temperature max_length calls \<and>
   map (\<lambda>ir. snd ir ''age'')
     (rows (fst (great_sample (stub_env ''garbage'') stub_great (Inl ''age is'') (7 / 10) 100 0)))
     = [NaN]"
proof (intro conjI)
  show "map (\<lambda>ir. snd ir ''age'')
      (rows (fst (great_sample (stub_env ''garbage'') stub_great (Inl ''age is'') (7 / 10) 100 0)))
      = [NaN]"
    by (simp add: great_sample_def Let_def stub_env_def stub_decode_def DataFrame_def)
qed (simp_all add: great_sample_def generate_each_closed Let_def del: upt_Suc)

section \<open>The quota loop\<close>

lemma remove_flawed_closed:
  "remove_flawed ev ncs df =
     (if set ncs \<subseteq> set (cols df)
      then Inr (df\<lparr>rows := filter (\<lambda>ir. \<forall>c \<in> set ncs. notnull_numeric ev (snd ir c)) (rows df)\<rparr>)
      else Inl KeyError)"
proof (induction ncs arbitrary: df)
  case Nil
  then show ?case by simp
next
  case (Cons c cs)
  show ?case
    by (auto simp add: keep_numeric_def Cons.IH intro!: filter_cong)
qed

lemma cols_remove_missing: "cols (remove_missing df) = cols df"
  by (simp add: remove_missing_def Let_def)

lemma rows_remove_missing_subset: "set (rows (remove_missing df)) \<subseteq> set (rows df)"
  by (auto simp add: remove_missing_def Let_def)

lemma rows_remove_missing_complete:
  "ir \<in> set (rows (remove_missing df)) \<Longrightarrow> \<not> has_na df (snd ir)"
  by (auto simp add: remove_missing_def Let_def)

lemma sample_step_valid:
  assumes step: "sample_step ev self gs k ml temp st = Inr st'"
    and pres: "\<forall>txt df. cols (convert_text_to_tabular_data ev txt df) = cols df"
    and c0: "cols (fst st) = the_list (columns self)"
  shows "cols (fst st') = the_list (columns self) \<and>
         (\<forall>ir \<in> set (rows (fst st')). valid_row ev self (snd ir))"
proof -
  define df1 where
    "df1 = convert_text_to_tabular_data ev (batch_text ev gs k ml temp (snd st)) (fst st)"
  have c1: "cols df1 = the_list (columns self)"
    using pres c0 by (simp add: df1_def)
  from step obtain ncs where ncs: "num_cols self = Some ncs"
    by (auto simp add: sample_step_def Let_def split: option.splits)
  define df2 where
    "df2 = df1\<lparr>rows := filter (\<lambda>ir. \<forall>c \<in> set ncs. notnull_numeric ev (snd ir c)) (rows df1)\<rparr>"
  from step ncs have st': "fst st' = remove_missing df2"
    by (auto simp add: sample_step_def Let_def batch_text_def df1_def df2_def
        remove_flawed_closed split: if_splits)
  have c2: "cols df2 = the_list (columns self)"
    using c1 by (simp add: df2_def)
  have "valid_row ev self (snd ir)" if "ir \<in> set (rows (fst st'))" for ir
  proof -
    from that have m: "ir \<in> set (rows (remove_missing df2))" by (simp add: st')
    then have "ir \<in> set (rows df2)" using rows_remove_missing_subset by blast
    then have num: "\<forall>c \<in> set ncs. notnull_numeric ev (snd ir c)"
      by (simp add: df2_def)
    have "\<not> has_na df2 (snd ir)" using m by (rule rows_remove_missing_complete)
    then have "\<forall>c \<in> set (the_list (columns self)). snd ir c \<noteq> NaN"
      by (simp add: has_na_def c2)
    with num show ?thesis by (simp add: valid_row_def ncs the_list_def)
  qed
  then show ?thesis by (simp add: st' cols_remove_missing c2)
qed

lemma sample_loop_reaches:
  assumes pres: "\<forall>txt df. cols (convert_text_to_tabular_data ev txt df) = cols df"
  shows "passes i ev self gs k ml temp st = Inr stf \<Longrightarrow>
     n \<le> int (length (rows (fst stf))) \<Longrightarrow> i \<le> fuel \<Longrightarrow>
     cols (fst st) = the_list (columns self) \<Longrightarrow>
     \<forall>ir \<in> set (rows (fst st)). valid_row ev self (snd ir) \<Longrightarrow>
     \<exists>st'. sample_loop fuel ev self gs k ml temp n st = Some (Inr st') \<and>
           n \<le> int (length (rows (fst st'))) \<and>
           cols (fst st') = the_list (columns self) \<and>
           (\<forall>ir \<in> set (rows (fst st')). valid_row ev self (snd ir))"
proof (induction i arbitrary: st fuel)
  case 0
  then show ?case by (simp add: sample_loop_quota_met)
next
  case (Suc i)
  show ?case
  proof (cases "n \<le> int (length (rows (fst st)))")
    case True
    then show ?thesis using Suc.prems by (simp add: sample_loop_quota_met)
  next
    case False
    from Suc.prems(3) obtain f where f: "fuel = Suc f" "i \<le> f"
      by (cases fuel) auto
    from Suc.prems(1) obtain st1 where
      st1: "sample_step ev self gs k ml temp st = Inr st1"
        "passes i ev self gs k ml temp st1 = Inr stf"
      by (auto split: sum.splits)
    have inv1: "cols (fst st1) = the_list (columns self) \<and>
         (\<forall>ir \<in> set (rows (fst st1)). valid_row ev self (snd ir))"
      using st1(1) pres Suc.prems(4) by (rule sample_step_valid)
    have "\<exists>st'. sample_loop f ev self gs k ml temp n st1 = Some (Inr st') \<and>
           n \<le> int (length (rows (fst st'))) \<and>
           cols (fst st') = the_list (columns self) \<and>
           (\<forall>ir \<in> set (rows (fst st')). valid_row ev self (snd ir))"
      using Suc.IH [OF st1(2) Suc.prems(2) f(2)] inv1 by blast
    then show ?thesis using False st1(1) f(1) by simp
  qed
qed

lemma head_reset_rows:
  "0 \<le> n \<Longrightarrow> n \<le> int (length (rows df)) \<Longrightarrow>
   int (length (rows (head n (reset_index df)))) = n \<and>
   cols (head n (reset_index df)) = cols df \<and>
   snd ` set (rows (head n (reset_index df))) \<subseteq> snd ` set (rows df)"
proof -
  assume n: "0 \<le> n" "n \<le> int (length (rows df))"
  have "set (take (nat n) (zip [0..<length (rows df)] (map snd (rows df))))
      \<subseteq> set (zip [0..<length (rows df)] (map snd (rows df)))"
    by (rule set_take_subset)
  moreover have "snd ` set (zip [0..<length (rows df)] (map snd (rows df))) \<subseteq> snd ` set (rows df)"
    by (auto dest: set_zip_rightD)
  ultimately show ?thesis using n
    by (auto simp add: head_def reset_index_def)
qed

text \<open>
  C1, for \<open>n_samples \<ge> 0\<close>. Let the start sampler be built, let
  \<^verbatim>\<open>_convert_text_to_tabular_data\<close> keep the columns of the frame it is given, and let some
  number \<open>i\<close> of passes of the loop body run without error to a frame of at least
  \<open>n_samples\<close> rows. Then \<^verbatim>\<open>sample(n_samples)\<close>, allowed \<open>i\<close> passes or more, returns a table
  of exactly \<open>n_samples\<close> rows over the column set, each row valid: every field of a numeric
  column parses as a number and no field of the column set is missing.
\<close>

theorem sample_quota:
  assumes gs: "get_start_sampler self start_col start_col_dist = Inr gs"
    and pres: "\<forall>txt df. cols (convert_text_to_tabular_data ev txt df) = cols df"
    and acc: "passes i ev self gs k max_length temperature (DataFrame (columns self), calls) = Inr st"
    and enough: "n \<le> int (length (rows (fst st)))"
    and n: "0 \<le> n"
    and fuel: "i \<le> fuel"
  shows "\<exists>t c. sample fuel ev self n start_col start_col_dist temperature k max_length calls
             = Some (Inr (t, c)) \<and>
           int (length (rows t)) = n \<and>
           cols t = the_list (columns self) \<and>
           (\<forall>ir \<in> set (rows t). valid_row ev self (snd ir))"
proof -
  have "\<exists>st'. sample_loop fuel ev self gs k max_length temperature n (DataFrame (columns self), calls)
            = Some (Inr st') \<and>
           n \<le> int (length (rows (fst st'))) \<and>
           cols (fst st') = the_list (columns self) \<and>
           (\<forall>ir \<in> set (rows (fst st')). valid_row ev self (snd ir))"
    using pres acc enough fuel
    by (rule sample_loop_reaches) (simp_all add: DataFrame_def the_list_def)
  then obtain st' where
    loop: "sample_loop fuel ev self gs k max_length temperature n (DataFrame (columns self), calls)
            = Some (Inr st')"
    and len: "n \<le> int (length (rows (fst st')))"
    and cs: "cols (fst st') = the_list (columns self)"
    and valid: "\<forall>ir \<in> set (rows (fst st')). valid_row ev self (snd ir)"
    by blast
  let ?t = "head n (reset_index (fst st'))"
  have h: "int (length (rows ?t)) = n \<and> cols ?t = cols (fst st') \<and>
      snd ` set (rows ?t) \<subseteq> snd ` set (rows (fst st'))"
    using n len by (rule head_reset_rows)
  have "\<forall>ir \<in> set (rows ?t). valid_row ev self (snd ir)"
  proof
    fix ir assume "ir \<in> set (rows ?t)"
    then have "snd ir \<in> snd ` set (rows (fst st'))" using h by blast
    then show "valid_row ev self (snd ir)" using valid by auto
  qed
  moreover have "sample fuel ev self n start_col start_col_dist temperature k max_length calls
      = Some (Inr (?t, snd st'))"
    using gs loop by (simp add: sample_def)
  ultimately show ?thesis using h cs by auto
qed


lemma table_eqI: "cols (a::table) = cols b \<Longrightarrow> rows a = rows b \<Longrightarrow> a = b"
  by simp

lemma sample_step_all_invalid:
  assumes ncs: "num_cols self = Some ncs"
    and sub: "set ncs \<subseteq> set (the_list (columns self))"
    and pres: "\<forall>txt df. cols (convert_text_to_tabular_data ev txt df) = cols df"
    and bad: "\<forall>ir \<in> set (rows (convert_text_to_tabular_data ev (batch_text ev gs k ml temp c)
                 (DataFrame (columns self)))). \<not> valid_row ev self (snd ir)"
  shows "sample_step ev self gs k ml temp (DataFrame (columns self), c)
           = Inr (DataFrame (columns self), Suc c)"
proof -
  define df1 where
    "df1 = convert_text_to_tabular_data ev (batch_text ev gs k ml temp c) (DataFrame (columns self))"
  have c1: "cols df1 = the_list (columns self)"
    using pres by (simp add: df1_def DataFrame_def the_list_def)
  define df2 where
    "df2 = df1\<lparr>rows := filter (\<lambda>ir. \<forall>c \<in> set ncs. notnull_numeric ev (snd ir c)) (rows df1)\<rparr>"
  have flawed: "remove_flawed ev ncs df1 = Inr df2"
    using sub c1 by (simp add: remove_flawed_closed df2_def)
  have na: "has_na df2 (snd ir)" if "ir \<in> set (rows df2)" for ir
  proof -
    from that have "ir \<in> set (rows df1)" and "\<forall>c \<in> set ncs. notnull_numeric ev (snd ir c)"
      by (simp_all add: df2_def)
    moreover from this(1) bad have "\<not> valid_row ev self (snd ir)"
      by (simp add: df1_def)
    ultimately have "\<exists>c \<in> set (the_list (columns self)). snd ir c = NaN"
      by (auto simp add: valid_row_def ncs the_list_def)
    then show ?thesis by (simp add: has_na_def df2_def c1)
  qed
  have "rows (remove_missing df2) = []"
    using na by (auto simp add: remove_missing_def Let_def filter_empty_conv)
  moreover have "cols (remove_missing df2) = the_list (columns self)"
    using c1 by (simp add: cols_remove_missing df2_def)
  ultimately have "remove_missing df2 = DataFrame (columns self)"
    by (intro table_eqI) (simp_all add: DataFrame_def the_list_def)
  then show ?thesis
    using ncs flawed by (simp add: sample_step_def Let_def batch_text_def df1_def)
qed

lemma sample_loop_never_ends:
  assumes ncs: "num_cols self = Some ncs"
    and sub: "set ncs \<subseteq> set (the_list (columns self))"
    and pres: "\<forall>txt df. cols (convert_text_to_tabular_data ev txt df) = cols df"
    and bad: "\<forall>i. \<forall>ir \<in> set (rows (convert_text_to_tabular_data ev (batch_text ev gs k ml temp i)
                 (DataFrame (columns self)))). \<not> valid_row ev self (snd ir)"
    and n: "1 \<le> n"
  shows "sample_loop fuel ev self gs k ml temp n (DataFrame (columns self), c) = None"
proof (induction fuel arbitrary: c)
  case 0
  then show ?case using n by (simp add: DataFrame_def)
next
  case (Suc fuel)
  have "sample_step ev self gs k ml temp (DataFrame (columns self), c)
           = Inr (DataFrame (columns self), Suc c)"
    using ncs sub pres bad by (intro sample_step_all_invalid) auto
  moreover have "n > int (length (rows (fst (DataFrame (columns self), c))))"
    using n by (simp add: DataFrame_def)
  ultimately show ?case using Suc.IH [of "Suc c"] by simp
qed

text \<open>
  C4. On a fitted instance (the numeric columns are a list of columns of the column set)
  whose start sampler is built, with \<^verbatim>\<open>_convert_text_to_tabular_data\<close> keeping the columns:
  if every batch decodes, on the empty frame, to rows none of which is valid, then
  \<^verbatim>\<open>sample(n)\<close> with \<open>n \<ge> 1\<close> does not return within any number of passes.
\<close>

theorem sample_never_terminates:
  assumes gs: "get_start_sampler self start_col start_col_dist = Inr gs"
    and ncs: "num_cols self = Some ncs"
    and sub: "set ncs \<subseteq> set (the_list (columns self))"
    and pres: "\<forall>txt df. cols (convert_text_to_tabular_data ev txt df) = cols df"
    and bad: "\<forall>i. \<forall>ir \<in> set (rows (convert_text_to_tabular_data ev
                 (batch_text ev gs k max_length temperature i)
                 (DataFrame (columns self)))). \<not> valid_row ev self (snd ir)"
    and n: "1 \<le> n"
  shows "sample fuel ev self n start_col start_col_dist temperature k max_length calls = None"
  using gs sample_loop_never_ends [OF ncs sub pres bad n, of fuel calls]
  by (simp add: sample_def)

lemma stub_env_preserves:
  "\<forall>txt df. cols (convert_text_to_tabular_data (stub_env t) txt df) = cols df"
  by (simp add: stub_env_def)

lemma stub_great_sampler:
  "get_start_sampler stub_great (PStr []) PNone =
     Inr (CategoricalStart (PStr ''sex'')
            (PDict [(PStr ''M'', PFloat (1 / 2)), (PStr ''F'', PFloat (1 / 2))]))"
  by (simp add: get_start_sampler_def stub_great_def)

theorem sample_never_terminates_witness:
  "sample 1000 (stub_env ''garbage'') stub_great 1 (PStr []) PNone (7 / 10) 100 100 0 = None"
proof -
  have ncs: "num_cols stub_great = Some [''age'', ''income'']"
    by (simp add: stub_great_def)
  have sub: "set [''age'', ''income''] \<subseteq> set (the_list (columns stub_great))"
    by (simp add: stub_great_def the_list_def)
  have bad: "\<forall>i. \<forall>ir \<in> set (rows (convert_text_to_tabular_data (stub_env ''garbage'')
                 (batch_text (stub_env ''garbage'')
                    (CategoricalStart (PStr ''sex'')
                       (PDict [(PStr ''M'', PFloat (1 / 2)), (PStr ''F'', PFloat (1 / 2))]))
                    100 100 (7 / 10) i)
                 (DataFrame (columns stub_great)))). \<not> valid_row (stub_env ''garbage'') stub_great (snd ir)"
    by (auto simp add: stub_env_def batch_text_def DataFrame_def stub_decode_def valid_row_def
        stub_great_def the_list_def dest!: set_zip_rightD)
  show ?thesis
    using sample_never_terminates [OF stub_great_sampler ncs sub stub_env_preserves bad, of 1 1000 0]
    by simp
qed

theorem sample_quota_witness:
  "\<exists>t c. sample 1 (stub_env ''age is 30, sex is M, income is 50000'') stub_great 2
            (PStr []) PNone (7 / 10) 2 100 0 = Some (Inr (t, c)) \<and>
         int (length (rows t)) = 2 \<and>
         cols t = the_list (columns stub_great) \<and>
         (\<forall>ir \<in> set (rows t).
            valid_row (stub_env ''age is 30, sex is M, income is 50000'') stub_great (snd ir))"
proof -
  let ?t = "''age is 30, sex is M, income is 50000''"
  let ?st = "(\<lparr>cols = [''age'', ''sex'', ''income''],
               rows = [(0, stub_decode ?t), (Suc 0, stub_decode ?t)]\<rparr>, Suc 0)"
  let ?ev = "stub_env ?t"
  let ?gs = "CategoricalStart (PStr ''sex'')
         (PDict [(PStr ''M'', PFloat (1 / 2)), (PStr ''F'', PFloat (1 / 2))])"
  let ?df = "\<lparr>cols = [''age'', ''sex'', ''income''],
               rows = [(0, stub_decode ?t), (Suc 0, stub_decode ?t)]\<rparr>"
  have btext: "batch_text ?ev ?gs 2 100 (7 / 10) 0 = [?t, ?t]"
    by (simp add: batch_text_def stub_env_def numeral_2_eq_2)
  have conv: "convert_text_to_tabular_data ?ev [?t, ?t] (DataFrame (columns stub_great)) = ?df"
    by (simp add: stub_env_def DataFrame_def stub_great_def)
  have num: "to_numeric ?ev ''30''" "to_numeric ?ev ''50000''"
    by (simp_all add: stub_env_def)
  have flawed: "remove_flawed ?ev [''age'', ''income''] ?df = Inr ?df"
    using num by (simp add: keep_numeric_def notnull_numeric_def stub_decode_def)
  have missing: "remove_missing ?df = ?df"
    by (simp add: remove_missing_def has_na_def stub_decode_def)
  have ncs: "num_cols stub_great = Some [''age'', ''income'']"
    by (simp add: stub_great_def)
  have "sample_step ?ev stub_great ?gs 2 100 (7 / 10) (DataFrame (columns stub_great), 0) = Inr ?st"
    using btext conv flawed missing ncs
    by (simp add: sample_step_def Let_def batch_text_def)
  then have acc: "passes 1 ?ev stub_great ?gs 2 100 (7 / 10) (DataFrame (columns stub_great), 0) = Inr ?st"
    by simp
  have enough: "2 \<le> int (length (rows (fst ?st)))" by simp
  show ?thesis
    using sample_quota [OF stub_great_sampler stub_env_preserves acc enough, of 1]
    by simp
qed

text \<open>
  The claim C1 as stated, for every \<open>n_samples\<close>, fails at \<open>n_samples = -1\<close>: the loop,
  with no pass made, holds \<open>0 \<ge> -1\<close> rows; \<^verbatim>\<open>sample(-1)\<close> returns the empty table, whose number
  of rows is not \<open>-1\<close>.
\<close>

theorem sample_negative_counterexample:
  "sample 0 (stub_env ''age is 30, sex is M, income is 50000'') stub_great (- 1)
     (PStr []) PNone (7 / 10) 2 100 0 = Some (Inr (DataFrame (columns stub_great), 0)) \<and>
   get_start_sampler stub_great (PStr []) PNone =
     Inr (CategoricalStart (PStr ''sex'')
            (PDict [(PStr ''M'', PFloat (1 / 2)), (PStr ''F'', PFloat (1 / 2))])) \<and>
   passes 0 (stub_env ''age is 30, sex is M, income is 50000'') stub_great
     (CategoricalStart (PStr ''sex'')
        (PDict [(PStr ''M'', PFloat (1 / 2)), (PStr ''F'', PFloat (1 / 2))]))
     2 100 (7 / 10) (DataFrame (columns stub_great), 0) = Inr (DataFrame (columns stub_great), 0) \<and>
   - 1 \<le> int (length (rows (DataFrame (columns stub_great)))) \<and>
   int (length (rows (DataFrame (columns stub_great)))) \<noteq> - 1"
  by (simp add: sample_no_quota stub_great_sampler)

section \<open>What JSON gives back\<close>

lemma dict_set_fresh: "k \<notin> fst ` set d \<Longrightarrow> dict_set d k v = d @ [(k, v)]"
  by (induction d) auto

lemma loads_items_distinct:
  "distinct (map fst ms) \<Longrightarrow> PStr ` set (map fst ms) \<inter> fst ` set d = {} \<Longrightarrow>
   loads_items ms d = d @ map (\<lambda>m. (PStr (fst m), loads (snd m))) ms"
proof (induction ms arbitrary: d)
  case Nil
  then show ?case by simp
next
  case (Cons m ms)
  have fresh: "PStr (fst m) \<notin> fst ` set d"
    using Cons.prems(2) by auto
  have "PStr ` set (map fst ms) \<inter> fst ` set (d @ [(PStr (fst m), loads (snd m))]) = {}"
    using Cons.prems by auto
  then show ?case
    using Cons.IH [of "d @ [(PStr (fst m), loads (snd m))]"] Cons.prems(1) fresh
    by (simp add: dict_set_fresh)
qed

lemma dumps_items_keys:
  "dumps_items fr kvs = Inr ms \<Longrightarrow> json_faithful_items kvs \<Longrightarrow> map PStr (map fst ms) = map fst kvs"
proof (induction kvs arbitrary: ms)
  case Nil
  then show ?case by simp
next
  case (Cons kv kvs)
  then show ?case
    by (cases "fst kv") (auto split: sum.splits)
qed

lemma roundtrip_all:
  shows "json_faithful v \<longrightarrow> (\<exists>j. dumps fr v = Inr j \<and> loads j = v)"
    and "json_faithful_list xs \<longrightarrow> (\<exists>js. dumps_list fr xs = Inr js \<and> loads_list js = xs)"
    and "json_faithful_items kvs \<longrightarrow>
      (\<exists>ms. dumps_items fr kvs = Inr ms \<and> map (\<lambda>m. (PStr (fst m), loads (snd m))) ms = kvs)"
proof (induction v and xs and kvs rule: json_faithful_json_faithful_list_json_faithful_items.induct)
  case (7 kvs)
  show ?case
  proof
    assume f: "json_faithful (PDict kvs)"
    then obtain ms where ms: "dumps_items fr kvs = Inr ms"
      "map (\<lambda>m. (PStr (fst m), loads (snd m))) ms = kvs"
      using 7 by auto
    have keys: "map PStr (map fst ms) = map fst kvs"
      using ms(1) f by (intro dumps_items_keys) auto
    have "distinct (map PStr (map fst ms))" using f keys by simp
    then have "distinct (map fst ms)"
      using distinct_map [of PStr "map fst ms"] by blast
    then have "loads_items ms [] = kvs"
      using ms(2) by (simp add: loads_items_distinct)
    then show "\<exists>j. dumps fr (PDict kvs) = Inr j \<and> loads j = PDict kvs"
      using ms(1) by simp
  qed
next
  case (12 kv kvs)
  then show ?case by (cases kv; cases "fst kv") (auto split: sum.splits)
qed auto

lemma roundtrip:
  "json_faithful v \<Longrightarrow> \<exists>j. dumps fr v = Inr j \<and> loads j = v"
  using roundtrip_all(1) by blast


section \<open>Saving and loading\<close>

lemma save_success:
  assumes "save ev self path w = (None, w')"
  shows "\<exists>j. dumps (float_repr ev) (PDict (attributes_of self)) = Inr j \<and>
           path \<in> dirs w' \<and>
           path @ ''/config.json'' \<notin> dirs w' \<and>
           path @ ''/model.pt'' \<notin> dirs w' \<and>
           files w' (path @ ''/config.json'') = Some (Config j) \<and>
           files w' (path @ ''/model.pt'') = Some (Weights (model self))"
  using assms
  by (auto simp add: save_def mkdir_def open_w_def Let_def split: if_splits sum.splits)

lemma json_faithful_names: "json_faithful_list (map PStr xs)"
  by (induction xs) simp_all

lemma as_str_list_names: "as_str_list (map PStr xs) = Some xs"
  by (induction xs) simp_all

lemma dumps_opt_list:
  "\<exists>j. dumps fr (py_opt_list cs) = Inr j \<and> as_opt_list (loads j) = Some cs"
proof -
  have "json_faithful (py_opt_list cs)"
    by (cases cs) (simp_all add: json_faithful_names)
  then obtain j where "dumps fr (py_opt_list cs) = Inr j" "loads j = py_opt_list cs"
    using roundtrip by blast
  moreover have "as_opt_list (py_opt_list cs) = Some cs"
    by (cases cs) (simp_all add: as_str_list_names)
  ultimately show ?thesis by simp
qed

lemma as_kwargs_dict_set:
  "as_kwargs d = Some r \<Longrightarrow> \<exists>r'. as_kwargs (dict_set d (PStr k) v) = Some r'"
proof (induction d arbitrary: r rule: as_kwargs.induct)
qed (auto split: option.splits)

lemma as_kwargs_loads_items:
  "as_kwargs d = Some r \<Longrightarrow> \<exists>r'. as_kwargs (loads_items ms d) = Some r'"
proof (induction ms arbitrary: d r)
  case Nil
  then show ?case by simp
next
  case (Cons m ms)
  from as_kwargs_dict_set [OF Cons.prems, of "fst m" "loads (snd m)"]
  obtain r1 where "as_kwargs (dict_set d (PStr (fst m)) (loads (snd m))) = Some r1" by blast
  then show ?case using Cons.IH by simp
qed

lemma dumps_kwargs:
  "dumps fr (PDict kvs) = Inr j \<Longrightarrow> \<exists>d r. loads j = PDict d \<and> as_kwargs d = Some r"
proof -
  assume "dumps fr (PDict kvs) = Inr j"
  then obtain ms where "j = JObj ms" by (auto split: sum.splits)
  moreover obtain r where "as_kwargs (loads_items ms []) = Some r"
    using as_kwargs_loads_items [of "[]" "[]" ms] by auto
  ultimately show ?thesis by simp
qed

lemma dumps_attributes:
  assumes "dumps fr (PDict (attributes_of self)) = Inr j"
  shows "\<exists>jt jcs jn jc jd.
      dumps fr (PDict (map (\<lambda>kv. (PStr (fst kv), snd kv)) (train_hyperparameters self))) = Inr jt \<and>
      dumps fr (py_opt_list (columns self)) = Inr jcs \<and>
      dumps fr (py_opt_list (num_cols self)) = Inr jn \<and>
      dumps fr (conditional_col self) = Inr jc \<and>
      dumps fr (ndarray_to_list (conditional_col_dist self)) = Inr jd \<and>
      j = JObj [(''llm'', JStr (llm self)),
                (''experiment_dir'', JStr (experiment_dir self)),
                (''epochs'', JInt (epochs self)),
                (''batch_size'', JInt (batch_size self)),
                (''train_hyperparameters'', jt),
                (''columns'', jcs),
                (''num_cols'', jn),
                (''conditional_col'', jc),
                (''conditional_col_dist'', jd)]"
  using assms
  by (simp add: attributes_of_def split: sum.splits)

lemma loads_attributes:
  "loads (JObj [(''llm'', jl), (''experiment_dir'', je), (''epochs'', jp), (''batch_size'', jb),
                (''train_hyperparameters'', jt), (''columns'', jcs), (''num_cols'', jn),
                (''conditional_col'', jc), (''conditional_col_dist'', jd)]) =
   PDict [(PStr ''llm'', loads jl), (PStr ''experiment_dir'', loads je),
          (PStr ''epochs'', loads jp), (PStr ''batch_size'', loads jb),
          (PStr ''train_hyperparameters'', loads jt), (PStr ''columns'', loads jcs),
          (PStr ''num_cols'', loads jn), (PStr ''conditional_col'', loads jc),
          (PStr ''conditional_col_dist'', loads jd)]"
  by simp


lemma setattrs_attributes:
  assumes "as_kwargs d = Some r" "as_opt_list vcs = Some cs" "as_opt_list vn = Some ncs"
  shows "setattrs g0
     [(PStr ''llm'', PStr l), (PStr ''experiment_dir'', PStr e),
      (PStr ''epochs'', PInt p), (PStr ''batch_size'', PInt b),
      (PStr ''train_hyperparameters'', PDict d), (PStr ''columns'', vcs),
      (PStr ''num_cols'', vn), (PStr ''conditional_col'', vc),
      (PStr ''conditional_col_dist'', vd)] =
     Inr (g0\<lparr>llm := l, experiment_dir := e, epochs := p, batch_size := b,
             train_hyperparameters := r, columns := cs, num_cols := ncs,
             conditional_col := vc, conditional_col_dist := vd\<rparr>)"
  using assms by (simp add: setattr_def)

lemma load_after_save:
  assumes sv: "save ev self path w = (None, w')"
  shows "\<exists>jc jd g w''.
      dumps (float_repr ev) (conditional_col self) = Inr jc \<and>
      dumps (float_repr ev) (ndarray_to_list (conditional_col_dist self)) = Inr jd \<and>
      load_from_dir ev path w' = (Inr g, w'') \<and>
      columns g = columns self \<and> num_cols g = num_cols self \<and>
      conditional_col g = loads jc \<and> conditional_col_dist g = loads jd"
proof -
  from save_success [OF sv] obtain j where
    j: "dumps (float_repr ev) (PDict (attributes_of self)) = Inr j"
    and d: "path \<in> dirs w'" "path @ ''/config.json'' \<notin> dirs w'" "path @ ''/model.pt'' \<notin> dirs w'"
    and f: "files w' (path @ ''/config.json'') = Some (Config j)"
      "files w' (path @ ''/model.pt'') = Some (Weights (model self))"
    by blast
  from dumps_attributes [OF j] obtain jt jcs jn jc jd where
    jt: "dumps (float_repr ev)
           (PDict (map (\<lambda>kv. (PStr (fst kv), snd kv)) (train_hyperparameters self))) = Inr jt"
    and jcs: "dumps (float_repr ev) (py_opt_list (columns self)) = Inr jcs"
    and jn: "dumps (float_repr ev) (py_opt_list (num_cols self)) = Inr jn"
    and jc: "dumps (float_repr ev) (conditional_col self) = Inr jc"
    and jd: "dumps (float_repr ev) (ndarray_to_list (conditional_col_dist self)) = Inr jd"
    and jeq: "j = JObj [(''llm'', JStr (llm self)),
                (''experiment_dir'', JStr (experiment_dir self)),
                (''epochs'', JInt (epochs self)),
                (''batch_size'', JInt (batch_size self)),
                (''train_hyperparameters'', jt),
                (''columns'', jcs),
                (''num_cols'', jn),
                (''conditional_col'', jc),
                (''conditional_col_dist'', jd)]"
    by blast
  from dumps_kwargs [OF jt] obtain dt r where
    dt: "loads jt = PDict dt" "as_kwargs dt = Some r" by blast
  have cs: "as_opt_list (loads jcs) = Some (columns self)"
    using dumps_opt_list [of "float_repr ev" "columns self"] jcs by auto
  have ns: "as_opt_list (loads jn) = Some (num_cols self)"
    using dumps_opt_list [of "float_repr ev" "num_cols self"] jn by auto
  let ?attrs = "[(PStr ''llm'', PStr (llm self)), (PStr ''experiment_dir'', PStr (experiment_dir self)),
      (PStr ''epochs'', PInt (epochs self)), (PStr ''batch_size'', PInt (batch_size self)),
      (PStr ''train_hyperparameters'', PDict dt), (PStr ''columns'', loads jcs),
      (PStr ''num_cols'', loads jn), (PStr ''conditional_col'', loads jc),
      (PStr ''conditional_col_dist'', loads jd)]"
  have lj: "loads j = PDict ?attrs"
    unfolding jeq loads_attributes by (simp add: dt)
  have look: "map_of ?attrs (PStr ''llm'') = Some (PStr (llm self))"
    by simp
  let ?g = "(init ev (llm self) ''trainer_great'' 100 8 [])
      \<lparr>llm := llm self, experiment_dir := experiment_dir self, epochs := epochs self,
       batch_size := batch_size self, train_hyperparameters := r, columns := columns self,
       num_cols := num_cols self, conditional_col := loads jc, conditional_col_dist := loads jd\<rparr>"
  have sa: "setattrs (init ev (llm self) ''trainer_great'' 100 8 []) ?attrs = Inr ?g"
    using dt(2) cs ns by (rule setattrs_attributes)
  have "load_from_dir ev path w' =
      (Inr (?g\<lparr>model := model self\<rparr>),
       w'\<lparr>events := events w' @ [Read (path @ ''/config.json''), Read (path @ ''/model.pt'')]\<rparr>)"
    using d f lj
    by (simp add: load_from_dir_def open_r_def look sa del: map_of.simps setattrs.simps)
  then show ?thesis using jc jd by auto
qed

text \<open>
  C3, for values that JSON gives back as they were. After a \<^verbatim>\<open>save(path)\<close> that returned,
  \<^verbatim>\<open>load_from_dir(path)\<close> returns an instance with the \<^verbatim>\<open>columns\<close> and \<^verbatim>\<open>num_cols\<close> of the
  original; its \<^verbatim>\<open>conditional_col\<close> and \<^verbatim>\<open>conditional_col_dist\<close> are the original's when
  these are built from \<^verbatim>\<open>None\<close>, booleans, integers, floats, strings, lists and
  dictionaries keyed by strings. A distribution that is an array comes back as the list of
  its elements.
\<close>

theorem save_load_roundtrip:
  assumes "save ev self path w = (None, w')"
  shows "\<exists>g w''. load_from_dir ev path w' = (Inr g, w'') \<and>
           columns g = columns self \<and> num_cols g = num_cols self \<and>
           (json_faithful (conditional_col self) \<longrightarrow> conditional_col g = conditional_col self) \<and>
           (json_faithful (conditional_col_dist self) \<longrightarrow>
              conditional_col_dist g = conditional_col_dist self) \<and>
           (\<forall>xs. conditional_col_dist self = PNDArray xs \<longrightarrow>
              conditional_col_dist g = PList (map PFloat xs))"
proof -
  from load_after_save [OF assms] obtain jc jd g w'' where
    jc: "dumps (float_repr ev) (conditional_col self) = Inr jc"
    and jd: "dumps (float_repr ev) (ndarray_to_list (conditional_col_dist self)) = Inr jd"
    and ld: "load_from_dir ev path w' = (Inr g, w'')"
    and eq: "columns g = columns self" "num_cols g = num_cols self"
      "conditional_col g = loads jc" "conditional_col_dist g = loads jd"
    by blast
  have c: "conditional_col g = conditional_col self" if "json_faithful (conditional_col self)"
    using roundtrip [OF that, of "float_repr ev"] jc eq(3) by auto
  have dfaith: "conditional_col_dist g = conditional_col_dist self"
    if "json_faithful (conditional_col_dist self)"
  proof -
    from that have "ndarray_to_list (conditional_col_dist self) = conditional_col_dist self"
      by (cases "conditional_col_dist self") simp_all
    then show ?thesis
      using roundtrip [OF that, of "float_repr ev"] jd eq(4) by auto
  qed
  have darr: "conditional_col_dist g = PList (map PFloat xs)"
    if "conditional_col_dist self = PNDArray xs" for xs
  proof -
    have "json_faithful (PList (map PFloat xs))"
      by (induction xs) simp_all
    then show ?thesis
      using roundtrip [of "PList (map PFloat xs)" "float_repr ev"] jd eq(4) that by auto
  qed
  show ?thesis using ld eq(1,2) c dfaith darr by blast
qed


lemma stub_save_returns:
  "fst (save (stub_env t) stub_great ''m'' empty_world) = None"
  by (simp add: save_def mkdir_def open_w_def empty_world_def attributes_of_def stub_great_def
      stub_env_def Let_def)

theorem save_load_roundtrip_witness:
  "\<exists>g w''. load_from_dir (stub_env ''garbage'') ''m''
              (snd (save (stub_env ''garbage'') stub_great ''m'' empty_world)) = (Inr g, w'') \<and>
     columns g = Some [''age'', ''sex'', ''income''] \<and>
     num_cols g = Some [''age'', ''income''] \<and>
     conditional_col g = PStr ''sex'' \<and>
     conditional_col_dist g = PDict [(PStr ''M'', PFloat (1 / 2)), (PStr ''F'', PFloat (1 / 2))]"
proof -
  have sv: "save (stub_env ''garbage'') stub_great ''m'' empty_world =
      (None, snd (save (stub_env ''garbage'') stub_great ''m'' empty_world))"
    using stub_save_returns [of "''garbage''"] by (simp add: prod_eq_iff)
  have f: "json_faithful (conditional_col stub_great)" "json_faithful (conditional_col_dist stub_great)"
    by (simp_all add: stub_great_def)
  show ?thesis
    using save_load_roundtrip [OF sv] f by (auto simp add: stub_great_def)
qed

lemma stub_codes_save_returns:
  "fst (save (stub_env t) stub_great_codes ''m'' empty_world) = None"
  by (simp add: save_def mkdir_def open_w_def empty_world_def attributes_of_def stub_great_def
      stub_great_codes_def stub_env_def Let_def str_int_def str_nat.simps)

text \<open>
  The claim C3 as stated, for every fitted instance, fails for a categorical distribution
  keyed by integers: \<^verbatim>\<open>{0: 0.5, 1: 0.5}\<close> is written as \<^verbatim>\<open>{"0": 0.5, "1": 0.5}\<close> and loaded
  with the keys \<^verbatim>\<open>"0"\<close> and \<^verbatim>\<open>"1"\<close>.
\<close>

theorem save_load_int_keys_counterexample:
  "fst (save (stub_env ''garbage'') stub_great_codes ''m'' empty_world) = None \<and>
   (case fst (load_from_dir (stub_env ''garbage'') ''m''
                (snd (save (stub_env ''garbage'') stub_great_codes ''m'' empty_world))) of
      Inl e \<Rightarrow> PNone
    | Inr g \<Rightarrow> conditional_col_dist g) =
     PDict [(PStr ''0'', PFloat (1 / 2)), (PStr ''1'', PFloat (1 / 2))] \<and>
   PDict [(PStr ''0'', PFloat (1 / 2)), (PStr ''1'', PFloat (1 / 2))] \<noteq>
     conditional_col_dist stub_great_codes"
proof -
  have sv: "save (stub_env ''garbage'') stub_great_codes ''m'' empty_world =
      (None, snd (save (stub_env ''garbage'') stub_great_codes ''m'' empty_world))"
    using stub_codes_save_returns [of "''garbage''"] by (simp add: prod_eq_iff)
  from load_after_save [OF sv] obtain jd g w'' where
    jd: "dumps (float_repr (stub_env ''garbage''))
           (ndarray_to_list (conditional_col_dist stub_great_codes)) = Inr jd"
    and ld: "load_from_dir (stub_env ''garbage'') ''m''
               (snd (save (stub_env ''garbage'') stub_great_codes ''m'' empty_world)) = (Inr g, w'')"
    and eq: "conditional_col_dist g = loads jd"
    by blast
  from jd have "jd = JObj [(''0'', JFloat (1 / 2)), (''1'', JFloat (1 / 2))]"
    by (simp add: stub_great_codes_def stub_great_def str_int_def str_nat.simps)
  then have "conditional_col_dist g = PDict [(PStr ''0'', PFloat (1 / 2)), (PStr ''1'', PFloat (1 / 2))]"
    using eq by simp
  then show ?thesis
    using ld stub_codes_save_returns [of "''garbage''"]
    by (simp add: stub_great_codes_def stub_great_def)
qed

text \<open>
  C8. \<^verbatim>\<open>save(path)\<close> on a directory that exists emits the warning and creates no directory;
  when the two file names are free for files and the attributes serialise, it returns and
  the configuration and the weights are the new ones, whatever the files held before.
  \<^verbatim>\<open>load_from_dir(path)\<close> on a path that is no directory raises \<^verbatim>\<open>AssertionError\<close> and leaves
  the file system and its log as they were: nothing was read.
\<close>

theorem save_warns_load_asserts:
  "(path \<in> dirs w \<longrightarrow>
      Warn path \<in> set (events (snd (save ev self path w))) \<and>
      dirs (snd (save ev self path w)) = dirs w \<and>
      (path @ ''/config.json'' \<notin> dirs w \<and> path @ ''/model.pt'' \<notin> dirs w \<and>
       dumps (float_repr ev) (PDict (attributes_of self)) = Inr j \<longrightarrow>
         fst (save ev self path w) = None \<and>
         files (snd (save ev self path w)) (path @ ''/config.json'') = Some (Config j) \<and>
         files (snd (save ev self path w)) (path @ ''/model.pt'') = Some (Weights (model self)))) \<and>
   (path \<notin> dirs w \<longrightarrow> load_from_dir ev path w = (Inl AssertionError, w))"
  by (auto simp add: save_def open_w_def load_from_dir_def Let_def split: sum.splits)

theorem save_warns_load_asserts_witness:
  "\<exists>j. ''m'' \<in> dirs stub_world \<and> files stub_world ''m/config.json'' = Some (Config JNull) \<and>
     dumps (float_repr (stub_env ''garbage'')) (PDict (attributes_of stub_great)) = Inr j \<and>
     j \<noteq> JNull \<and>
     Warn ''m'' \<in> set (events (snd (save (stub_env ''garbage'') stub_great ''m'' stub_world))) \<and>
     fst (save (stub_env ''garbage'') stub_great ''m'' stub_world) = None \<and>
     files (snd (save (stub_env ''garbage'') stub_great ''m'' stub_world)) ''m/config.json''
       = Some (Config j) \<and>
     ''m'' \<notin> dirs empty_world \<and>
     load_from_dir (stub_env ''garbage'') ''m'' empty_world = (Inl AssertionError, empty_world)"
proof -
  obtain j where j: "dumps (float_repr (stub_env ''garbage'')) (PDict (attributes_of stub_great)) = Inr j"
    "j \<noteq> JNull"
    by (simp add: attributes_of_def stub_great_def)
  have d: "''m'' \<in> dirs stub_world" "''m'' @ ''/config.json'' \<notin> dirs stub_world"
    "''m'' @ ''/model.pt'' \<notin> dirs stub_world" "''m'' \<notin> dirs empty_world"
    by (simp_all add: stub_world_def empty_world_def)
  have "files stub_world ''m/config.json'' = Some (Config JNull)"
    by (simp add: stub_world_def)
  then show ?thesis
    using j d
      save_warns_load_asserts [of "''m''" stub_world "stub_env ''garbage''" stub_great j]
      save_warns_load_asserts [of "''m''" empty_world "stub_env ''garbage''" stub_great j]
    by auto
qed

section \<open>The conditional column of fit\<close>

lemma fit_rejects:
  "(c \<noteq> PNone \<and> \<not> is_str c) \<or> (\<exists>s. c = PStr s \<and> s \<notin> set (df_columns df)) \<Longrightarrow>
   fst (fit ev self df c) = Some AssertionError \<and>
   snd (fit ev self df c) = update_column_information self df"
  by (auto simp add: fit_def update_conditional_information_def Let_def)

lemma fit_establishes:
  "df_columns df \<noteq> [] \<Longrightarrow> c = PNone \<or> (\<exists>s. c = PStr s \<and> s \<noteq> [] \<and> s \<in> set (df_columns df)) \<Longrightarrow>
   fst (fit ev self df c) = None \<and>
   conditional_col (snd (fit ev self df c)) = (if c = PNone then PStr (last (df_columns df)) else c)"
  by (auto simp add: fit_def update_conditional_information_def Let_def last_column_def)

text \<open>
  C7 at the frame whose columns are the empty string and \<^verbatim>\<open>a\<close>, with the empty string as
  the conditional column: both assertions pass (the name is a string and a column of the
  frame), \<^verbatim>\<open>fit\<close> raises nothing, and the conditional column it establishes is \<^verbatim>\<open>a\<close>, the
  last one.
\<close>

theorem fit_empty_name_takes_last:
  "fst (fit ev self stub_frame (PStr [])) = None \<and>
   PStr [] \<in> set (map PStr (df_columns stub_frame)) \<and>
   conditional_col (snd (fit ev self stub_frame (PStr []))) = PStr ''a''"
  by (simp add: fit_def update_conditional_information_def Let_def last_column_def stub_frame_def)

end
